theory Spec2Isabelle
  imports Complex_Main
begin

section \<open>Python values, exceptions and small library functions\<close>

text \<open>
  Python floats are modelled by \<^typ>\<open>real\<close>: every use of a float in the modelled code
  is a comparison, a subtraction of two clock readings or a division by a constant.
  Python exceptions are values of \<open>exn\<close>; a computation that may raise has the type
  \<open>exn + 'a\<close> with \<open>Inl\<close> the raised exception.
\<close>

datatype exn = PermissionError | ValueError | IndexError | AttributeError | OtherError

type_synonym headers = "(string \<times> string) list"

definition then_do :: "exn + 'a \<Rightarrow> ('a \<Rightarrow> exn + 'b) \<Rightarrow> exn + 'b" where
  "then_do r f = (case r of Inl e \<Rightarrow> Inl e | Inr x \<Rightarrow> f x)"

text \<open>\<^verbatim>\<open>try: body except Exception as e: handler\<close>\<close>

definition try_except :: "exn + 'a \<Rightarrow> (exn \<Rightarrow> exn + 'a) \<Rightarrow> exn + 'a" where
  "try_except body handler = (case body of Inl e \<Rightarrow> handler e | Inr x \<Rightarrow> Inr x)"

text \<open>\<^verbatim>\<open>s.startswith(p)\<close>\<close>

definition startswith :: "string \<Rightarrow> string \<Rightarrow> bool" where
  "startswith s p = (take (length p) s = p)"

text \<open>\<^verbatim>\<open>sub in s\<close> on strings\<close>

fun contains :: "string \<Rightarrow> string \<Rightarrow> bool" where
  "contains [] sub = (sub = [])"
| "contains (c # cs) sub = (startswith (c # cs) sub \<or> contains cs sub)"

text \<open>\<^verbatim>\<open>str(n)\<close> for a non-negative integer\<close>

definition digit_char :: "nat \<Rightarrow> char" where
  "digit_char n = char_of (48 + n)"

fun str_nat :: "nat \<Rightarrow> string" where
  "str_nat n = (if n < 10 then [digit_char n] else str_nat (n div 10) @ [digit_char (n mod 10)])"

text \<open>\<^verbatim>\<open>f.readlines()\<close>: the lines of a text, each with its newline\<close>

definition newline :: char where
  "newline = CHR 0x0A"

fun readlines :: "string \<Rightarrow> string list" where
  "readlines [] = []"
| "readlines (c # cs) =
     (if c = newline then [c] # readlines cs
      else (case readlines cs of [] \<Rightarrow> [[c]] | l # ls \<Rightarrow> (c # l) # ls))"

text \<open>
  \<^verbatim>\<open>datetime.now()\<close> is a number of microseconds; the difference of two readings is a
  \<^verbatim>\<open>timedelta\<close>, which Python normalises to days, seconds (0 to 86399) and
  microseconds (0 to 999999). \<^verbatim>\<open>.seconds\<close> reads the middle component.
\<close>

type_synonym datetime = int

definition timedelta_seconds :: "int \<Rightarrow> int" where
  "timedelta_seconds delta = (delta mod 86400000000) div 1000000"

definition timedelta_total_seconds :: "int \<Rightarrow> real" where
  "timedelta_total_seconds delta = real_of_int delta / 1000000"

section \<open>The store (backend/core/database\_manager.py)\<close>

text \<open>
  The tables the monitor and the detector use. A row carries the columns the caller
  supplies; the row id and the default timestamp column are left out. The sqlite file is
  taken to be available, so the logging calls return.
\<close>

record detection_row =
  det_url :: string
  det_confidence :: real
  det_is_gambling :: bool
  det_headers :: "headers option"
  det_content_snippet :: "string option"
  det_blocked :: bool
  det_method :: "string option"
  det_status_code :: "int option"
  det_response_size :: "nat option"

record traffic_row =
  tr_source_ip :: string
  tr_dest_ip :: string
  tr_source_port :: nat
  tr_dest_port :: nat
  tr_protocol :: string
  tr_url :: string
  tr_method :: string
  tr_headers :: "headers option"
  tr_request_body :: "string option"
  tr_response_headers :: "headers option"
  tr_response_body :: "string option"
  tr_status_code :: int
  tr_response_size :: nat
  tr_duration_ms :: real

record bandwidth_row =
  bw_bytes_sent :: int
  bw_bytes_recv :: int
  bw_bandwidth_mbps :: real
  bw_active_connections :: nat

record database =
  settings :: "string \<rightharpoonup> string"
  blocked_sites :: "(string \<times> string) list"
  detection_logs :: "detection_row list"
  traffic_logs :: "traffic_row list"
  bandwidth_history :: "bandwidth_row list"

text \<open>\<^verbatim>\<open>x if x else None\<close> on an optional dictionary or string\<close>

definition if_truthy :: "'a list option \<Rightarrow> 'a list option" where
  "if_truthy x = (case x of None \<Rightarrow> None | Some v \<Rightarrow> if v = [] then None else Some v)"

definition snippet :: "nat \<Rightarrow> string option \<Rightarrow> string option" where
  "snippet n x = (case x of None \<Rightarrow> None | Some v \<Rightarrow> if v = [] then None else Some (take n v))"

definition log_detection ::
  "string \<Rightarrow> real \<Rightarrow> bool \<Rightarrow> headers option \<Rightarrow> string option \<Rightarrow> bool \<Rightarrow> string option \<Rightarrow>
   int option \<Rightarrow> nat option \<Rightarrow> database \<Rightarrow> database" where
  "log_detection url confidence is_gambling hdrs content blocked method status_code response_size d =
     d\<lparr>detection_logs := detection_logs d @
        [\<lparr>det_url = url, det_confidence = confidence, det_is_gambling = is_gambling,
          det_headers = if_truthy hdrs, det_content_snippet = snippet 1000 content,
          det_blocked = blocked, det_method = method, det_status_code = status_code,
          det_response_size = response_size\<rparr>]\<rparr>"

definition log_traffic :: "traffic_row \<Rightarrow> database \<Rightarrow> database" where
  "log_traffic r d =
     d\<lparr>traffic_logs := traffic_logs d @
        [r\<lparr>tr_headers := if_truthy (tr_headers r),
           tr_request_body := snippet 5000 (tr_request_body r),
           tr_response_headers := if_truthy (tr_response_headers r),
           tr_response_body := snippet 5000 (tr_response_body r)\<rparr>]\<rparr>"

definition log_bandwidth :: "int \<Rightarrow> int \<Rightarrow> real \<Rightarrow> nat \<Rightarrow> database \<Rightarrow> database" where
  "log_bandwidth bytes_sent bytes_recv bandwidth_mbps active_connections d =
     d\<lparr>bandwidth_history := bandwidth_history d @
        [\<lparr>bw_bytes_sent = bytes_sent, bw_bytes_recv = bytes_recv,
          bw_bandwidth_mbps = bandwidth_mbps, bw_active_connections = active_connections\<rparr>]\<rparr>"

definition get_setting :: "database \<Rightarrow> string \<Rightarrow> string option" where
  "get_setting d key = settings d key"

text \<open>\<^verbatim>\<open>INSERT OR IGNORE\<close> into a table whose url column is \<^verbatim>\<open>UNIQUE\<close>\<close>

definition add_blocked_site :: "string \<Rightarrow> string \<Rightarrow> database \<Rightarrow> bool \<times> database" where
  "add_blocked_site url reason d =
     (True, if url \<in> set (map fst (blocked_sites d)) then d
            else d\<lparr>blocked_sites := blocked_sites d @ [(url, reason)]\<rparr>)"

definition remove_blocked_site :: "string \<Rightarrow> database \<Rightarrow> bool \<times> database" where
  "remove_blocked_site url d =
     (True, d\<lparr>blocked_sites := filter (\<lambda>r. fst r \<noteq> url) (blocked_sites d)\<rparr>)"

definition get_blocked_sites :: "database \<Rightarrow> (string \<times> string) list" where
  "get_blocked_sites d = blocked_sites d"

section \<open>The classifier decision (backend/ml/gambling\_detector.py)\<close>

text \<open>
  The trained pipeline is opaque: \<open>model\<close> is \<^verbatim>\<open>predict_proba\<close>, from the feature
  text to the array of class probabilities, and it may raise. The feature text is built by
  \<^verbatim>\<open>extract_features_from_url\<close>, which catches its own exceptions and always returns a
  string; it only feeds the pipeline and is a parameter here, as is Python's
  \<^verbatim>\<open>float\<close> on a string. The detector's console output is not modelled.
\<close>

record gambling_detector =
  model :: "(string \<Rightarrow> exn + real list list) option"
  db_manager :: "database option"

definition first_row :: "real list list \<Rightarrow> exn + real list" where
  "first_row probabilities = (case probabilities of [] \<Rightarrow> Inl IndexError | row # _ \<Rightarrow> Inr row)"

definition gambling_prob_of :: "real list \<Rightarrow> real" where
  "gambling_prob_of row = (if length row > 1 then row ! 1 else 0.5)"

definition read_sensitivity :: "(string \<Rightarrow> exn + real) \<Rightarrow> gambling_detector \<Rightarrow> exn + real" where
  "read_sensitivity pyfloat d =
     (case db_manager d of
        None \<Rightarrow> Inr 0.5
      | Some dbm \<Rightarrow>
          (case get_setting dbm ''sensitivity'' of
             None \<Rightarrow> Inr 0.5
           | Some sensitivity_setting \<Rightarrow>
               if sensitivity_setting = [] then Inr 0.5
               else then_do (pyfloat sensitivity_setting) (\<lambda>v. Inr (v / 100.0))))"

definition predict_gambling ::
  "(string \<Rightarrow> exn + real) \<Rightarrow> (string \<Rightarrow> headers option \<Rightarrow> string option \<Rightarrow> string) \<Rightarrow>
   gambling_detector \<Rightarrow> string \<Rightarrow> headers option \<Rightarrow> string option \<Rightarrow> exn + (real \<times> bool)" where
  "predict_gambling pyfloat extract_features_from_url d url hdrs content =
     (case model d of
        None \<Rightarrow> Inr (0.5, False)
      | Some predict_proba \<Rightarrow>
          try_except
            (then_do (predict_proba (extract_features_from_url url hdrs content)) (\<lambda>probabilities.
             then_do (first_row probabilities) (\<lambda>row.
             then_do (read_sensitivity pyfloat d) (\<lambda>sensitivity.
               Inr (gambling_prob_of row, gambling_prob_of row > sensitivity)))))
            (\<lambda>e. Inr (0.5, False)))"

section \<open>The traffic monitor (backend/monitoring/traffic\_monitor.py)\<close>

text \<open>
  The classifier handed to the monitor is a callable
  \<^verbatim>\<open>ml_predictor(url, headers=None, content=None)\<close> returning a pair of confidence and
  verdict, or raising.
\<close>

type_synonym predictor = "string \<Rightarrow> headers option \<Rightarrow> string option \<Rightarrow> exn + (real \<times> bool)"

datatype console_msg =
    Blocked_gambling_site string real
  | Permission_denied_hosts string
  | Error_blocking_domain string exn
  | Error_unblocking_domain string exn
  | Error_real_time_stats exn
  | Auto_blocked_gambling_site string real
  | Error_in_ML_analysis exn
  | Error_processing_response exn

text \<open>
  The fields of \<^verbatim>\<open>NetworkTrafficMonitor\<close>, followed by the part of the machine the
  methods touch: the hosts file as seen in text mode, what opening it for reading and for
  writing raises (\<open>None\<close> when the open succeeds), and the console. The attributes
  \<^verbatim>\<open>_last_net_check\<close> and \<^verbatim>\<open>_last_bandwidth_log\<close> do not exist until first assigned:
  they are \<open>None\<close> until then.
\<close>

record monitor =
  db :: database
  ml_predictor :: "predictor option"
  monitoring_active :: bool
  dev_mode :: bool
  blocked_domains :: "string set"
  connections_cache :: "string \<rightharpoonup> datetime"
  last_net_check :: "(real \<times> int \<times> int) option"
  last_bandwidth_log :: "real option"
  hosts_file :: string
  hosts_read_error :: "exn option"
  hosts_write_error :: "exn option"
  stdout :: "console_msg list"

text \<open>
  \<^verbatim>\<open>urlparse(url).netloc\<close> belongs to Python's standard library and is a parameter
  \<open>netloc\<close> of the functions that call it.
\<close>

definition load_blocked_sites :: "(string \<Rightarrow> string) \<Rightarrow> monitor \<Rightarrow> monitor" where
  "load_blocked_sites netloc m =
     m\<lparr>blocked_domains := (\<lambda>site. netloc (fst site)) ` set (get_blocked_sites (db m))\<rparr>"

text \<open>The constructor, on a machine whose hosts file and access rights are given.\<close>

definition new_monitor ::
  "(string \<Rightarrow> string) \<Rightarrow> database \<Rightarrow> predictor option \<Rightarrow> string \<Rightarrow> exn option \<Rightarrow> exn option \<Rightarrow> monitor" where
  "new_monitor netloc d p hosts rd wr =
     load_blocked_sites netloc
       \<lparr>db = d, ml_predictor = p, monitoring_active = False, dev_mode = False,
        blocked_domains = {}, connections_cache = Map.empty, last_net_check = None,
        last_bandwidth_log = None, hosts_file = hosts, hosts_read_error = rd,
        hosts_write_error = wr, stdout = []\<rparr>"

subsection \<open>block\_domain and unblock\_domain\<close>

text \<open>
  The inner handler catches \<^verbatim>\<open>PermissionError\<close>, prints and falls through to
  \<^verbatim>\<open>return True\<close>; any other exception reaches the outer handler, which prints and
  returns \<^verbatim>\<open>False\<close>. Both run after the store and the in-memory set were updated.
\<close>

definition block_domain :: "string \<Rightarrow> monitor \<Rightarrow> bool \<times> monitor" where
  "block_domain domain m =
     (let m1 = m\<lparr>db := snd (add_blocked_site (''http://'' @ domain) ''Gambling detected'' (db m))\<rparr>;
          m2 = m1\<lparr>blocked_domains := insert domain (blocked_domains m1)\<rparr>
      in case hosts_write_error m2 of
           None \<Rightarrow>
             (True, m2\<lparr>hosts_file := hosts_file m2 @ newline # ''127.0.0.1 '' @ domain
                                        @ newline # ''127.0.0.1 www.'' @ domain\<rparr>)
         | Some e \<Rightarrow>
             if e = PermissionError
             then (True, m2\<lparr>stdout := stdout m2 @ [Permission_denied_hosts domain]\<rparr>)
             else (False, m2\<lparr>stdout := stdout m2 @ [Error_blocking_domain domain e]\<rparr>))"

definition unblock_failed :: "string \<Rightarrow> exn \<Rightarrow> monitor \<Rightarrow> bool \<times> monitor" where
  "unblock_failed domain e m =
     (if e = PermissionError
      then (True, m\<lparr>stdout := stdout m @ [Permission_denied_hosts domain]\<rparr>)
      else (False, m\<lparr>stdout := stdout m @ [Error_unblocking_domain domain e]\<rparr>))"

definition unblock_domain :: "string \<Rightarrow> monitor \<Rightarrow> bool \<times> monitor" where
  "unblock_domain domain m =
     (let m1 = m\<lparr>db := snd (remove_blocked_site (''http://'' @ domain) (db m))\<rparr>;
          m2 = m1\<lparr>blocked_domains := blocked_domains m1 - {domain}\<rparr>
      in case hosts_read_error m2 of
           Some e \<Rightarrow> unblock_failed domain e m2
         | None \<Rightarrow>
             (let lines = readlines (hosts_file m2)
              in case hosts_write_error m2 of
                   Some e \<Rightarrow> unblock_failed domain e m2
                 | None \<Rightarrow>
                     (True, m2\<lparr>hosts_file :=
                                 concat (filter (\<lambda>line. \<not> contains line domain) lines)\<rparr>)))"

subsection \<open>\_analyze\_connection\<close>

text \<open>
  One connection of a poll cycle. \<^verbatim>\<open>datetime.now()\<close> is read twice, once for the
  comparison with the cached timestamp and once for the timestamp that is stored.
\<close>

record connection =
  raddr_ip :: string
  raddr_port :: nat

record conn_env =
  gethostbyaddr :: "string \<Rightarrow> exn + string"
  now_check :: datetime
  now_record :: datetime

definition resolve_hostname :: "conn_env \<Rightarrow> string \<Rightarrow> string" where
  "resolve_hostname env ip = (case gethostbyaddr env ip of Inr h \<Rightarrow> h | Inl e \<Rightarrow> ip)"

definition cache_key_of :: "string \<Rightarrow> nat \<Rightarrow> string" where
  "cache_key_of hostname port = hostname @ '':'' @ str_nat port"

definition analyzed_recently :: "conn_env \<Rightarrow> monitor \<Rightarrow> string \<Rightarrow> bool" where
  "analyzed_recently env m cache_key =
     (case connections_cache m cache_key of
        None \<Rightarrow> False
      | Some last_check \<Rightarrow> timedelta_seconds (now_check env - last_check) < 300)"

definition call_predictor :: "predictor option \<Rightarrow> string \<Rightarrow> real \<times> bool" where
  "call_predictor p url =
     (case p of
        None \<Rightarrow> (0.5, False)
      | Some f \<Rightarrow> (case f url None None of Inr r \<Rightarrow> r | Inl e \<Rightarrow> (0.5, False)))"

definition analyze_connection :: "conn_env \<Rightarrow> connection \<Rightarrow> monitor \<Rightarrow> monitor" where
  "analyze_connection env conn m =
     (if startswith (raddr_ip conn) ''127.'' \<or> startswith (raddr_ip conn) ''192.168.'' then m
      else
        let hostname = resolve_hostname env (raddr_ip conn);
            url = ''http://'' @ hostname;
            cache_key = cache_key_of hostname (raddr_port conn)
        in if analyzed_recently env m cache_key then m
           else
             let m1 = m\<lparr>connections_cache := (connections_cache m)(cache_key \<mapsto> now_record env)\<rparr>;
                 confidence = fst (call_predictor (ml_predictor m1) url);
                 is_gambling = snd (call_predictor (ml_predictor m1) url);
                 m2 = m1\<lparr>db := log_detection url confidence is_gambling None None
                                  (hostname \<in> blocked_domains m1) (Some ''CONNECTION'') None None
                                  (db m1)\<rparr>
             in if is_gambling \<and> confidence > 0.7 \<and> hostname \<notin> blocked_domains m2
                then (let m3 = snd (block_domain hostname m2)
                      in m3\<lparr>stdout := stdout m3 @ [Blocked_gambling_site hostname confidence]\<rparr>)
                else m2)"

subsection \<open>get\_real\_time\_stats\<close>

text \<open>
  What one invocation reads from the machine: the connection count and the cumulative
  byte counters of \<^verbatim>\<open>psutil\<close> (or the exception it raises) and \<^verbatim>\<open>time.time()\<close>.
  The model keeps the effects on the monitor and on the store; the returned dictionary is
  left out.
\<close>

record psutil_sample =
  active_connections :: nat
  bytes_sent :: int
  bytes_recv :: int

record stats_env =
  psutil_read :: "exn + psutil_sample"
  current_time :: real

definition total_mbps_of :: "monitor \<Rightarrow> psutil_sample \<Rightarrow> real \<Rightarrow> real" where
  "total_mbps_of m net_io now =
     (case last_net_check m of
        None \<Rightarrow> 0
      | Some (last_time, last_sent, last_recv) \<Rightarrow>
          (let time_diff = now - last_time;
               bytes_sent_diff = bytes_sent net_io - last_sent;
               bytes_recv_diff = bytes_recv net_io - last_recv
           in if time_diff > 0
              then real_of_int (bytes_sent_diff * 8) / (time_diff * 1024 * 1024)
                   + real_of_int (bytes_recv_diff * 8) / (time_diff * 1024 * 1024)
              else 0))"

definition bandwidth_log_due :: "monitor \<Rightarrow> real \<Rightarrow> bool" where
  "bandwidth_log_due m now =
     (case last_bandwidth_log m of None \<Rightarrow> True | Some last_log \<Rightarrow> now - last_log > 300)"

definition get_real_time_stats :: "stats_env \<Rightarrow> monitor \<Rightarrow> monitor" where
  "get_real_time_stats env m =
     (case psutil_read env of
        Inl e \<Rightarrow> m\<lparr>stdout := stdout m @ [Error_real_time_stats e]\<rparr>
      | Inr net_io \<Rightarrow>
          (let total_mbps = total_mbps_of m net_io (current_time env);
               m1 = m\<lparr>last_net_check :=
                         Some (current_time env, bytes_sent net_io, bytes_recv net_io)\<rparr>
           in if bandwidth_log_due m1 (current_time env)
              then m1\<lparr>db := log_bandwidth (bytes_sent net_io) (bytes_recv net_io) total_mbps
                                (active_connections net_io) (db m1),
                      last_bandwidth_log := Some (current_time env)\<rparr>
              else m1))"

text \<open>A caller that invokes the method once per element of a list of readings.\<close>

fun poll_stats :: "stats_env list \<Rightarrow> monitor \<Rightarrow> monitor" where
  "poll_stats [] m = m"
| "poll_stats (env # envs) m = poll_stats envs (get_real_time_stats env m)"

subsection \<open>ProxyAddon\<close>

text \<open>
  The addon receives the monitor's store, classifier and blocked set. Its flows carry the
  request, the response once there is one, and the two attributes the request hook
  attaches (\<open>None\<close> while the attribute does not exist). Bodies are byte strings, empty
  when there is no body; decoding them to text is taken to succeed.
\<close>

record proxy_addon =
  addon_db :: database
  addon_ml_predictor :: "predictor option"
  addon_blocked_domains :: "string set"
  addon_stdout :: "console_msg list"

record http_response =
  resp_status_code :: int
  resp_content :: string
  resp_headers :: headers

record request_info =
  info_url :: string
  info_method :: string
  info_headers :: headers
  info_body :: "string option"

record flow =
  flow_pretty_url :: string
  flow_method :: string
  flow_headers :: headers
  flow_content :: string
  flow_port :: nat
  flow_response :: "http_response option"
  flow_request_start_time :: "real option"
  flow_request_info :: "request_info option"

definition proxy_addon_of :: "monitor \<Rightarrow> proxy_addon" where
  "proxy_addon_of m =
     \<lparr>addon_db = db m, addon_ml_predictor = ml_predictor m,
      addon_blocked_domains = (if blocked_domains m = {} then {} else blocked_domains m),
      addon_stdout = []\<rparr>"

definition blocked_page :: http_response where
  "blocked_page =
     \<lparr>resp_status_code = 200,
      resp_content = ''<html><body><h1>Site Blocked</h1><p>This site has been blocked by NetGuard.</p></body></html>'',
      resp_headers = [(''Content-Type'', ''text/html'')]\<rparr>"

definition text_or_none :: "string \<Rightarrow> string option" where
  "text_or_none content = (if content = [] then None else Some content)"

definition request :: "(string \<Rightarrow> string) \<Rightarrow> real \<Rightarrow> proxy_addon \<Rightarrow> flow \<Rightarrow> flow" where
  "request netloc now a f =
     (let url = flow_pretty_url f;
          domain = netloc url
      in if domain \<in> addon_blocked_domains a
         then f\<lparr>flow_response := Some blocked_page\<rparr>
         else f\<lparr>flow_request_start_time := Some now,
                flow_request_info :=
                  Some \<lparr>info_url = url, info_method = flow_method f,
                        info_headers = flow_headers f,
                        info_body = text_or_none (flow_content f)\<rparr>\<rparr>)"

definition analyze_response ::
  "(string \<Rightarrow> string) \<Rightarrow> request_info \<Rightarrow> http_response \<Rightarrow> proxy_addon \<Rightarrow> proxy_addon" where
  "analyze_response netloc info resp a =
     (let url = info_url info;
          response_headers = resp_headers resp;
          response_body = text_or_none (resp_content resp);
          response_size = length (resp_content resp)
      in case addon_ml_predictor a of
           None \<Rightarrow> a
         | Some p \<Rightarrow>
             (case p url (Some response_headers) response_body of
                Inl e \<Rightarrow> a\<lparr>addon_stdout := addon_stdout a @ [Error_in_ML_analysis e]\<rparr>
              | Inr (confidence, is_gambling) \<Rightarrow>
                  (let a1 = a\<lparr>addon_db := log_detection url confidence is_gambling
                                 (Some response_headers) response_body False
                                 (Some (info_method info)) (Some (resp_status_code resp))
                                 (Some response_size) (addon_db a)\<rparr>
                   in if is_gambling \<and> confidence > 0.8
                      then a1\<lparr>addon_blocked_domains := insert (netloc url) (addon_blocked_domains a1),
                              addon_stdout := addon_stdout a1
                                 @ [Auto_blocked_gambling_site (netloc url) confidence]\<rparr>
                      else a1)))"

definition response :: "(string \<Rightarrow> string) \<Rightarrow> real \<Rightarrow> proxy_addon \<Rightarrow> flow \<Rightarrow> proxy_addon" where
  "response netloc now a f =
     (case flow_request_info f of
        None \<Rightarrow> a
      | Some info \<Rightarrow>
          (case flow_request_start_time f of
             None \<Rightarrow> a\<lparr>addon_stdout := addon_stdout a @ [Error_processing_response AttributeError]\<rparr>
           | Some start \<Rightarrow>
               (case flow_response f of
                  None \<Rightarrow>
                    a\<lparr>addon_stdout := addon_stdout a @ [Error_processing_response AttributeError]\<rparr>
                | Some resp \<Rightarrow>
                    analyze_response netloc info resp
                      (a\<lparr>addon_db := log_traffic
                           \<lparr>tr_source_ip = ''127.0.0.1'', tr_dest_ip = netloc (info_url info),
                            tr_source_port = 0, tr_dest_port = flow_port f,
                            tr_protocol = ''HTTP'', tr_url = info_url info,
                            tr_method = info_method info,
                            tr_headers = Some (info_headers info),
                            tr_request_body = info_body info,
                            tr_response_headers = Some (resp_headers resp),
                            tr_response_body = text_or_none (resp_content resp),
                            tr_status_code = resp_status_code resp,
                            tr_response_size = length (resp_content resp),
                            tr_duration_ms = (now - start) * 1000\<rparr>
                           (addon_db a)\<rparr>))))"

section \<open>Example values\<close>

text \<open>Concrete stores, classifiers, monitors and flows on which the theorems are run.\<close>

definition demo_db :: database where
  "demo_db = \<lparr>settings = Map.empty, blocked_sites = [], detection_logs = [],
              traffic_logs = [], bandwidth_history = []\<rparr>"

definition demo_detector :: "string \<Rightarrow> real \<Rightarrow> gambling_detector" where
  "demo_detector s p =
     \<lparr>model = Some (\<lambda>features. Inr [[1 - p, p]]),
      db_manager = Some (demo_db\<lparr>settings := [''sensitivity'' \<mapsto> s]\<rparr>)\<rparr>"

definition demo_float :: "string \<Rightarrow> exn + real" where
  "demo_float s = (if s = ''70'' then Inr 70 else if s = ''30'' then Inr 30 else Inl ValueError)"

definition demo_netloc :: "string \<Rightarrow> string" where
  "demo_netloc url = takeWhile (\<lambda>c. c \<noteq> CHR ''/'') (drop 7 url)"

definition demo_monitor :: "predictor option \<Rightarrow> exn option \<Rightarrow> monitor" where
  "demo_monitor p wr = new_monitor demo_netloc demo_db p [] None wr"

definition demo_conn :: connection where
  "demo_conn = \<lparr>raddr_ip = ''203.0.113.7'', raddr_port = 443\<rparr>"

definition demo_env :: "datetime \<Rightarrow> conn_env" where
  "demo_env t = \<lparr>gethostbyaddr = (\<lambda>ip. Inr ''casino.example''), now_check = t, now_record = t\<rparr>"

definition demo_predictor :: "real \<Rightarrow> bool \<Rightarrow> predictor" where
  "demo_predictor p g = (\<lambda>url hdrs content. Inr (p, g))"

definition failing_predictor :: predictor where
  "failing_predictor = (\<lambda>url hdrs content. Inl OtherError)"

definition demo_flow :: flow where
  "demo_flow = \<lparr>flow_pretty_url = ''http://casino.example/play'', flow_method = ''GET'',
                flow_headers = [], flow_content = [], flow_port = 80, flow_response = None,
                flow_request_start_time = None, flow_request_info = None\<rparr>"

definition demo_page :: http_response where
  "demo_page = \<lparr>resp_status_code = 200, resp_content = ''spin and win'', resp_headers = []\<rparr>"

definition demo_addon :: "real \<Rightarrow> proxy_addon" where
  "demo_addon p = proxy_addon_of (demo_monitor (Some (demo_predictor p True)) None)"

definition demo_served_flow :: "real \<Rightarrow> flow" where
  "demo_served_flow p = (request demo_netloc 0 (demo_addon p) demo_flow)\<lparr>flow_response := Some demo_page\<rparr>"

definition demo_blocking_addon :: proxy_addon where
  "demo_blocking_addon =
     proxy_addon_of (snd (block_domain ''casino.example'' (demo_monitor None None)))"

definition demo_denied_monitor :: monitor where
  "demo_denied_monitor = demo_monitor None (Some PermissionError)"

definition demo_www_flow :: flow where
  "demo_www_flow = demo_flow\<lparr>flow_pretty_url := ''http://www.casino.example/play''\<rparr>"

definition demo_upper_flow :: flow where
  "demo_upper_flow = demo_flow\<lparr>flow_pretty_url := ''http://Casino.Example/play''\<rparr>"

text \<open>
  A caller that invokes \<open>get_real_time_stats\<close> once per second: invocation \<open>k\<close> reads
  the clock at \<open>t0 + k\<close> and the counters \<open>io k\<close>.
\<close>

definition every_second :: "real \<Rightarrow> (nat \<Rightarrow> psutil_sample) \<Rightarrow> nat \<Rightarrow> nat \<Rightarrow> stats_env list" where
  "every_second t0 io a b =
     map (\<lambda>k. \<lparr>psutil_read = Inr (io k), current_time = t0 + real k\<rparr>) [a..<b]"

definition demo_io :: "nat \<Rightarrow> psutil_sample" where
  "demo_io k = \<lparr>active_connections = 3, bytes_sent = 1048576 * int k, bytes_recv = 0\<rparr>"

definition demo_first_seen :: monitor where
  "demo_first_seen =
     analyze_connection (demo_env 0) demo_conn (demo_monitor (Some (demo_predictor 0.6 True)) None)"

section \<open>Shared lemmas\<close>

lemma try_except_returns:
  assumes "\<And>e. \<exists>r. handler e = Inr r"
  shows "\<exists>r. try_except body handler = Inr r"
proof (cases body)
  case (Inl e)
  with assms [of e] show ?thesis by (simp add: try_except_def)
next
  case (Inr x)
  then have "try_except body handler = Inr x" by (simp add: try_except_def)
  then show ?thesis by blast
qed

lemma predict_gambling_returns:
  "\<exists>r. predict_gambling pyfloat extract d url hdrs content = Inr r"
proof (cases "model d")
  case None
  then have "predict_gambling pyfloat extract d url hdrs content = Inr (0.5, False)"
    by (simp add: predict_gambling_def)
  then show ?thesis by blast
next
  case (Some predict_proba)
  have "\<exists>r. (Inr (0.5, False) :: exn + real \<times> bool) = Inr r" by blast
  then have "\<exists>r. try_except body (\<lambda>e. Inr (0.5, False)) = (Inr r :: exn + real \<times> bool)" for body
    by (intro try_except_returns)
  with Some show ?thesis
    unfolding predict_gambling_def by simp
qed

lemma analyze_connection_processed:
  assumes "\<not> startswith (raddr_ip conn) ''127.''"
      and "\<not> startswith (raddr_ip conn) ''192.168.''"
      and "\<not> analyzed_recently env m (cache_key_of (resolve_hostname env (raddr_ip conn)) (raddr_port conn))"
      and "hostname = resolve_hostname env (raddr_ip conn)"
      and "call_predictor (ml_predictor m) (''http://'' @ hostname) = (confidence, is_gambling)"
      and "logged = m\<lparr>connections_cache :=
                        (connections_cache m)(cache_key_of hostname (raddr_port conn) \<mapsto> now_record env),
                      db := log_detection (''http://'' @ hostname) confidence is_gambling None None
                              (hostname \<in> blocked_domains m) (Some ''CONNECTION'') None None (db m)\<rparr>"
  shows "analyze_connection env conn m =
           (if is_gambling \<and> confidence > 0.7 \<and> hostname \<notin> blocked_domains m
            then (snd (block_domain hostname logged))
                   \<lparr>stdout := stdout (snd (block_domain hostname logged))
                                 @ [Blocked_gambling_site hostname confidence]\<rparr>
            else logged)"
  using assms by (simp add: analyze_connection_def Let_def)

lemma block_domain_blocked_domains:
  "blocked_domains (snd (block_domain domain m)) = insert domain (blocked_domains m)"
  by (simp add: block_domain_def Let_def split: option.splits)

lemma block_domain_detection_logs:
  "detection_logs (db (snd (block_domain domain m))) = detection_logs (db m)"
  by (simp add: block_domain_def Let_def add_blocked_site_def split: option.splits)

lemma block_domain_blocked_sites:
  "''http://'' @ domain \<in> fst ` set (blocked_sites (db (snd (block_domain domain m))))"
  by (auto simp: block_domain_def Let_def add_blocked_site_def split: option.splits)

lemma demo_monitor_simps:
  "db (demo_monitor p wr) = demo_db"
  "ml_predictor (demo_monitor p wr) = p"
  "blocked_domains (demo_monitor p wr) = {}"
  "connections_cache (demo_monitor p wr) = Map.empty"
  "hosts_file (demo_monitor p wr) = []"
  "hosts_write_error (demo_monitor p wr) = wr"
  "hosts_read_error (demo_monitor p wr) = None"
  "stdout (demo_monitor p wr) = []"
  "last_bandwidth_log (demo_monitor p wr) = None"
  "last_net_check (demo_monitor p wr) = None"
  by (simp_all add: demo_monitor_def new_monitor_def load_blocked_sites_def
        get_blocked_sites_def demo_db_def)

lemma demo_conn_not_local:
  "\<not> startswith (raddr_ip demo_conn) ''127.''" "\<not> startswith (raddr_ip demo_conn) ''192.168.''"
  by (simp_all add: demo_conn_def startswith_def)

lemma demo_resolve: "resolve_hostname (demo_env t) ip = ''casino.example''"
  by (simp add: resolve_hostname_def demo_env_def)

lemma demo_fresh: "\<not> analyzed_recently env (demo_monitor p wr) k"
  by (simp add: analyzed_recently_def demo_monitor_simps)

lemma analyze_connection_detection_logs:
  assumes "\<not> startswith (raddr_ip conn) ''127.''"
      and "\<not> startswith (raddr_ip conn) ''192.168.''"
      and "\<not> analyzed_recently env m (cache_key_of (resolve_hostname env (raddr_ip conn)) (raddr_port conn))"
      and "hostname = resolve_hostname env (raddr_ip conn)"
      and "call_predictor (ml_predictor m) (''http://'' @ hostname) = (confidence, is_gambling)"
  shows "detection_logs (db (analyze_connection env conn m))
           = detection_logs (db m)
             @ [\<lparr>det_url = ''http://'' @ hostname, det_confidence = confidence,
                 det_is_gambling = is_gambling, det_headers = None, det_content_snippet = None,
                 det_blocked = (hostname \<in> blocked_domains m),
                 det_method = Some ''CONNECTION'', det_status_code = None,
                 det_response_size = None\<rparr>]"
  by (simp add: analyze_connection_processed [OF assms refl] block_domain_detection_logs
        log_detection_def if_truthy_def snippet_def)

lemma response_with_context:
  assumes "flow_request_info f = Some info"
      and "flow_request_start_time f = Some start"
      and "flow_response f = Some resp"
  shows "response netloc now a f =
           analyze_response netloc info resp
             (a\<lparr>addon_db := log_traffic
                  \<lparr>tr_source_ip = ''127.0.0.1'', tr_dest_ip = netloc (info_url info),
                   tr_source_port = 0, tr_dest_port = flow_port f,
                   tr_protocol = ''HTTP'', tr_url = info_url info,
                   tr_method = info_method info,
                   tr_headers = Some (info_headers info),
                   tr_request_body = info_body info,
                   tr_response_headers = Some (resp_headers resp),
                   tr_response_body = text_or_none (resp_content resp),
                   tr_status_code = resp_status_code resp,
                   tr_response_size = length (resp_content resp),
                   tr_duration_ms = (now - start) * 1000\<rparr>
                  (addon_db a)\<rparr>)"
  using assms by (simp add: response_def)

lemma log_traffic_detection_logs: "detection_logs (log_traffic r d) = detection_logs d"
  by (simp add: log_traffic_def)

lemma log_traffic_blocked_sites: "blocked_sites (log_traffic r d) = blocked_sites d"
  by (simp add: log_traffic_def)

lemma analyze_response_verdict:
  assumes "addon_ml_predictor a = Some p"
      and "p (info_url info) (Some (resp_headers resp)) (text_or_none (resp_content resp))
             = Inr (confidence, is_gambling)"
  shows "analyze_response netloc info resp a =
           (let a1 = a\<lparr>addon_db := log_detection (info_url info) confidence is_gambling
                          (Some (resp_headers resp)) (text_or_none (resp_content resp)) False
                          (Some (info_method info)) (Some (resp_status_code resp))
                          (Some (length (resp_content resp))) (addon_db a)\<rparr>
            in if is_gambling \<and> confidence > 0.8
               then a1\<lparr>addon_blocked_domains :=
                         insert (netloc (info_url info)) (addon_blocked_domains a1),
                       addon_stdout := addon_stdout a1
                         @ [Auto_blocked_gambling_site (netloc (info_url info)) confidence]\<rparr>
               else a1)"
  using assms by (simp add: analyze_response_def Let_def)

lemma analyze_response_rows:
  "detection_logs (addon_db (analyze_response netloc info resp a)) = detection_logs (addon_db a)
   \<or> (\<exists>row. detection_logs (addon_db (analyze_response netloc info resp a))
               = detection_logs (addon_db a) @ [row] \<and> \<not> det_blocked row)"
  by (auto simp: analyze_response_def Let_def log_detection_def split: option.splits sum.splits)

lemma response_rows:
  "detection_logs (addon_db (response netloc now a f)) = detection_logs (addon_db a)
   \<or> (\<exists>row. detection_logs (addon_db (response netloc now a f))
               = detection_logs (addon_db a) @ [row] \<and> \<not> det_blocked row)"
proof (cases "\<exists>info start resp. flow_request_info f = Some info
                \<and> flow_request_start_time f = Some start \<and> flow_response f = Some resp")
  case True
  then obtain info start resp where c: "flow_request_info f = Some info"
    "flow_request_start_time f = Some start" "flow_response f = Some resp" by blast
  obtain a' where r: "response netloc now a f = analyze_response netloc info resp a'"
    and l: "detection_logs (addon_db a') = detection_logs (addon_db a)"
    using response_with_context [OF c, of netloc now a]
    by (simp add: log_traffic_detection_logs)
  from analyze_response_rows [of netloc info resp a'] show ?thesis
    unfolding r l .
next
  case False
  then have "detection_logs (addon_db (response netloc now a f)) = detection_logs (addon_db a)"
    by (auto simp: response_def split: option.splits)
  then show ?thesis by simp
qed

lemma demo_netloc_play: "demo_netloc ''http://casino.example/play'' = ''casino.example''"
  by (simp add: demo_netloc_def)

lemma demo_addon_simps:
  "addon_db (demo_addon p) = demo_db"
  "addon_ml_predictor (demo_addon p) = Some (demo_predictor p True)"
  "addon_blocked_domains (demo_addon p) = {}"
  "addon_stdout (demo_addon p) = []"
  by (simp_all add: demo_addon_def proxy_addon_of_def demo_monitor_simps)

lemma demo_served_flow_simps:
  "flow_request_info (demo_served_flow p)
     = Some \<lparr>info_url = ''http://casino.example/play'', info_method = ''GET'',
             info_headers = [], info_body = None\<rparr>"
  "flow_request_start_time (demo_served_flow p) = Some 0"
  "flow_response (demo_served_flow p) = Some demo_page"
  by (simp_all add: demo_served_flow_def request_def Let_def demo_flow_def demo_netloc_play
        demo_addon_simps text_or_none_def)

lemma response_verdict:
  assumes "flow_request_info f = Some info"
      and "flow_request_start_time f = Some start"
      and "flow_response f = Some resp"
      and "addon_ml_predictor a = Some p"
      and "p (info_url info) (Some (resp_headers resp)) (text_or_none (resp_content resp))
             = Inr (confidence, is_gambling)"
  shows "addon_blocked_domains (response netloc now a f)
           = (if is_gambling \<and> confidence > 0.8
              then insert (netloc (info_url info)) (addon_blocked_domains a)
              else addon_blocked_domains a)"
    and "blocked_sites (addon_db (response netloc now a f)) = blocked_sites (addon_db a)"
    and "detection_logs (addon_db (response netloc now a f))
           = detection_logs (addon_db a)
             @ [\<lparr>det_url = info_url info, det_confidence = confidence,
                 det_is_gambling = is_gambling, det_headers = if_truthy (Some (resp_headers resp)),
                 det_content_snippet = snippet 1000 (text_or_none (resp_content resp)),
                 det_blocked = False, det_method = Some (info_method info),
                 det_status_code = Some (resp_status_code resp),
                 det_response_size = Some (length (resp_content resp))\<rparr>]"
proof -
  obtain a' where r: "response netloc now a f = analyze_response netloc info resp a'"
    and l: "detection_logs (addon_db a') = detection_logs (addon_db a)"
           "blocked_sites (addon_db a') = blocked_sites (addon_db a)"
           "addon_blocked_domains a' = addon_blocked_domains a"
           "addon_ml_predictor a' = Some p"
    using response_with_context [OF assms(1-3), of netloc now a] assms(4)
    by (simp add: log_traffic_detection_logs log_traffic_blocked_sites)
  note v = analyze_response_verdict [OF l(4) assms(5), of netloc]
  show "addon_blocked_domains (response netloc now a f)
           = (if is_gambling \<and> confidence > 0.8
              then insert (netloc (info_url info)) (addon_blocked_domains a)
              else addon_blocked_domains a)"
    by (simp add: r v Let_def l)
  show "blocked_sites (addon_db (response netloc now a f)) = blocked_sites (addon_db a)"
    by (simp add: r v Let_def l log_detection_def)
  show "detection_logs (addon_db (response netloc now a f))
           = detection_logs (addon_db a)
             @ [\<lparr>det_url = info_url info, det_confidence = confidence,
                 det_is_gambling = is_gambling, det_headers = if_truthy (Some (resp_headers resp)),
                 det_content_snippet = snippet 1000 (text_or_none (resp_content resp)),
                 det_blocked = False, det_method = Some (info_method info),
                 det_status_code = Some (resp_status_code resp),
                 det_response_size = Some (length (resp_content resp))\<rparr>]"
    by (simp add: r v Let_def l log_detection_def)
qed

lemma demo_predictor_result: "demo_predictor p g url hdrs content = Inr (p, g)"
  by (simp add: demo_predictor_def)

lemma demo_connection_blocked_domains:
  "blocked_domains (analyze_connection (demo_env 0) demo_conn
                      (demo_monitor (Some (demo_predictor 0.75 True)) None))
     = {''casino.example''}"
proof -
  let ?m = "demo_monitor (Some (demo_predictor 0.75 True)) None"
  have h: "''casino.example'' = resolve_hostname (demo_env 0) (raddr_ip demo_conn)"
    by (simp add: demo_resolve)
  have cp: "call_predictor (ml_predictor ?m) (''http://'' @ ''casino.example'') = (0.75, True)"
    by (simp add: call_predictor_def demo_monitor_simps demo_predictor_result)
  show ?thesis
    unfolding analyze_connection_processed [OF demo_conn_not_local demo_fresh h cp refl]
    by (simp add: demo_monitor_simps block_domain_blocked_domains)
qed

lemma unblock_domain_blocked_domains:
  "blocked_domains (snd (unblock_domain domain m)) = blocked_domains m - {domain}"
  by (simp add: unblock_domain_def unblock_failed_def Let_def split: option.splits)

lemma block_domain_blocked_sites_eq:
  "blocked_sites (db (snd (block_domain domain m)))
     = (if ''http://'' @ domain \<in> fst ` set (blocked_sites (db m)) then blocked_sites (db m)
        else blocked_sites (db m) @ [(''http://'' @ domain, ''Gambling detected'')])"
  by (simp add: block_domain_def Let_def add_blocked_site_def split: option.splits)

lemma unblock_domain_blocked_sites_eq:
  "blocked_sites (db (snd (unblock_domain domain m)))
     = filter (\<lambda>r. fst r \<noteq> ''http://'' @ domain) (blocked_sites (db m))"
  by (simp add: unblock_domain_def unblock_failed_def Let_def remove_blocked_site_def
        split: option.splits)

lemma demo_blocking_addon_simps:
  "addon_db demo_blocking_addon
     = demo_db\<lparr>blocked_sites := [(''http://casino.example'', ''Gambling detected'')]\<rparr>"
  "addon_ml_predictor demo_blocking_addon = None"
  "addon_blocked_domains demo_blocking_addon = {''casino.example''}"
  "addon_stdout demo_blocking_addon = []"
  by (simp_all add: demo_blocking_addon_def proxy_addon_of_def block_domain_blocked_domains
        block_domain_def Let_def add_blocked_site_def demo_monitor_simps demo_db_def)

lemma get_real_time_stats_quiet:
  assumes "psutil_read env = Inr s" and "last_bandwidth_log m = Some l"
      and "current_time env - l \<le> 300"
  shows "bandwidth_history (db (get_real_time_stats env m)) = bandwidth_history (db m)"
    and "last_bandwidth_log (get_real_time_stats env m) = Some l"
  using assms by (simp_all add: get_real_time_stats_def Let_def bandwidth_log_due_def)

lemma get_real_time_stats_due:
  assumes "psutil_read env = Inr s" and "bandwidth_log_due m (current_time env)"
  shows "bandwidth_history (db (get_real_time_stats env m))
           = bandwidth_history (db m)
             @ [\<lparr>bw_bytes_sent = bytes_sent s, bw_bytes_recv = bytes_recv s,
                 bw_bandwidth_mbps = total_mbps_of m s (current_time env),
                 bw_active_connections = active_connections s\<rparr>]"
    and "last_bandwidth_log (get_real_time_stats env m) = Some (current_time env)"
  using assms
  by (simp_all add: get_real_time_stats_def Let_def bandwidth_log_due_def log_bandwidth_def)

lemma get_real_time_stats_only_if_due:
  assumes "bandwidth_history (db (get_real_time_stats env m)) \<noteq> bandwidth_history (db m)"
  shows "bandwidth_log_due m (current_time env)"
  using assms
  by (auto simp: get_real_time_stats_def Let_def bandwidth_log_due_def split: sum.splits if_splits)

lemma poll_stats_append: "poll_stats (xs @ ys) m = poll_stats ys (poll_stats xs m)"
  by (induction xs arbitrary: m) simp_all

lemma every_second_Cons:
  "a < b \<Longrightarrow> every_second t0 io a b
     = \<lparr>psutil_read = Inr (io a), current_time = t0 + real a\<rparr> # every_second t0 io (Suc a) b"
  by (simp add: every_second_def upt_conv_Cons)

lemma every_second_Nil: "b \<le> a \<Longrightarrow> every_second t0 io a b = []"
  by (simp add: every_second_def)

lemma every_second_split:
  "a \<le> c \<Longrightarrow> c \<le> b \<Longrightarrow> every_second t0 io a b = every_second t0 io a c @ every_second t0 io c b"
proof -
  assume "a \<le> c" and "c \<le> b"
  then have "[a..<b] = [a..<c] @ [c..<b]"
    using upt_add_eq_append [of a c "b - c"] by simp
  then show ?thesis by (simp add: every_second_def)
qed

lemma poll_stats_quiet:
  assumes "last_bandwidth_log m = Some (t0 + real l)" and "b \<le> l + 301"
  shows "bandwidth_history (db (poll_stats (every_second t0 io a b) m)) = bandwidth_history (db m)
       \<and> last_bandwidth_log (poll_stats (every_second t0 io a b) m) = Some (t0 + real l)"
  using assms
proof (induction "b - a" arbitrary: a m)
  case 0
  then show ?case by (simp add: every_second_Nil)
next
  case (Suc n)
  then have ab: "a < b" and n: "n = b - Suc a" by simp_all
  let ?env = "\<lparr>psutil_read = Inr (io a), current_time = t0 + real a\<rparr>"
  have q: "current_time ?env - (t0 + real l) \<le> 300"
    using ab Suc.prems(2) by simp
  have p: "psutil_read ?env = Inr (io a)" by simp
  note g = get_real_time_stats_quiet [OF p Suc.prems(1) q]
  from Suc.hyps(1) [OF n g(2) Suc.prems(2)] g(1)
  show ?case by (simp add: every_second_Cons [OF ab])
qed

lemma poll_stats_ten_minutes:
  assumes "last_bandwidth_log m = None" and "302 \<le> n" and "n \<le> 602"
  shows "length (bandwidth_history (db (poll_stats (every_second t0 io 0 n) m)))
           = length (bandwidth_history (db m)) + 2"
proof -
  let ?env = "\<lambda>k. \<lparr>psutil_read = Inr (io k), current_time = t0 + real k\<rparr>"
  let ?m1 = "get_real_time_stats (?env 0) m"
  let ?m2 = "poll_stats (every_second t0 io 1 301) ?m1"
  let ?m3 = "get_real_time_stats (?env 301) ?m2"
  let ?m4 = "poll_stats (every_second t0 io 302 n) ?m3"
  have s: "every_second t0 io 0 n
             = (?env 0 # every_second t0 io 1 301) @ (?env 301 # every_second t0 io 302 n)"
    using assms(2)
    by (simp add: every_second_split [of 0 301 n] every_second_Cons [of 0 301]
          every_second_Cons [of 301 n])
  have r: "poll_stats (every_second t0 io 0 n) m = ?m4"
    unfolding s poll_stats_append by simp
  have p: "psutil_read (?env k) = Inr (io k)" for k by simp
  have d0: "bandwidth_log_due m (current_time (?env 0))"
    using assms(1) by (simp add: bandwidth_log_due_def)
  note g1 = get_real_time_stats_due [OF p d0]
  have l1: "last_bandwidth_log ?m1 = Some (t0 + real 0)"
    using g1(2) by simp
  note q2 = poll_stats_quiet [OF l1, of 301 io 1]
  have d3: "bandwidth_log_due ?m2 (current_time (?env 301))"
    using q2 by (simp add: bandwidth_log_due_def)
  note g3 = get_real_time_stats_due [OF p d3]
  have l3: "last_bandwidth_log ?m3 = Some (t0 + real 301)"
    using g3(2) by simp
  have "n \<le> 301 + 301" using assms(3) by simp
  note q4 = poll_stats_quiet [OF l3 this, of io 302]
  have "length (bandwidth_history (db ?m4)) = length (bandwidth_history (db ?m3))"
    using q4 by simp
  also have "\<dots> = Suc (length (bandwidth_history (db ?m2)))"
    using g3(1) by simp
  also have "\<dots> = Suc (length (bandwidth_history (db ?m1)))"
    using q2 by simp
  also have "\<dots> = length (bandwidth_history (db m)) + 2"
    using g1(1) by simp
  finally show ?thesis unfolding r .
qed

lemma demo_env_simps: "now_check (demo_env t) = t" "now_record (demo_env t) = t"
  by (simp_all add: demo_env_def)

lemma demo_first_seen_eq:
  "demo_first_seen
     = (demo_monitor (Some (demo_predictor 0.6 True)) None)
         \<lparr>connections_cache := [cache_key_of ''casino.example'' 443 \<mapsto> 0],
          db := demo_db\<lparr>detection_logs :=
                  [\<lparr>det_url = ''http://casino.example'', det_confidence = 0.6,
                    det_is_gambling = True, det_headers = None, det_content_snippet = None,
                    det_blocked = False, det_method = Some ''CONNECTION'',
                    det_status_code = None, det_response_size = None\<rparr>]\<rparr>\<rparr>"
proof -
  let ?m = "demo_monitor (Some (demo_predictor 0.6 True)) None"
  have h: "''casino.example'' = resolve_hostname (demo_env 0) (raddr_ip demo_conn)"
    by (simp add: demo_resolve)
  have cp: "call_predictor (ml_predictor ?m) (''http://'' @ ''casino.example'') = (0.6, True)"
    by (simp add: call_predictor_def demo_monitor_simps demo_predictor_result)
  show ?thesis
    unfolding demo_first_seen_def
      analyze_connection_processed [OF demo_conn_not_local demo_fresh h cp refl]
    by (simp add: demo_monitor_simps demo_conn_def demo_env_def log_detection_def demo_db_def
          if_truthy_def snippet_def)
qed

lemma analyzed_recently_seconds_component:
  assumes "connections_cache m key = Some last_check"
  shows "analyzed_recently env m key
           = ((now_check env - last_check) mod 86400000000 < 300000000)"
proof -
  have "(x div 1000000 < 300) = (x < 300000000)" for x :: int
  proof -
    have "x = 1000000 * (x div 1000000) + x mod 1000000"
      and "0 \<le> x mod 1000000" and "x mod 1000000 < 1000000"
      by simp_all
    then show ?thesis by linarith
  qed
  with assms show ?thesis
    by (simp add: analyzed_recently_def timedelta_seconds_def)
qed

section \<open>The claims\<close>

text \<open>
  C1. Whenever the pipeline returns class probabilities, \<open>predict_gambling\<close> returns the
  gambling probability together with the verdict "probability strictly greater than the
  threshold", where the threshold is 0.5 when no sensitivity is stored (or the stored
  string is empty) and the stored sensitivity, read by \<^verbatim>\<open>float\<close>, divided by 100
  otherwise; a probability equal to the threshold is not flagged.
\<close>

theorem predict_gambling_flags_above_threshold:
  assumes "model d = Some predict_proba"
      and "predict_proba (extract url hdrs content) = Inr (row # rest)"
      and "stored = (case db_manager d of None \<Rightarrow> None | Some dbm \<Rightarrow> get_setting dbm ''sensitivity'')"
  shows "(stored = None \<or> stored = Some [] \<longrightarrow>
            predict_gambling pyfloat extract d url hdrs content
              = Inr (gambling_prob_of row, gambling_prob_of row > 0.5))
       \<and> (\<forall>s v. stored = Some s \<and> s \<noteq> [] \<and> pyfloat s = Inr v \<longrightarrow>
            predict_gambling pyfloat extract d url hdrs content
              = Inr (gambling_prob_of row, gambling_prob_of row > v / 100)
            \<and> (gambling_prob_of row = v / 100 \<longrightarrow>
                 predict_gambling pyfloat extract d url hdrs content = Inr (v / 100, False)))"
  using assms
  by (auto simp: predict_gambling_def try_except_def then_do_def first_row_def
        read_sensitivity_def split: option.splits)

text \<open>
  The boundary and a flagged case: probability 0.7 against the stored sensitivities 70 and 30.
\<close>

theorem predict_gambling_flags_above_threshold_witness:
  "predict_gambling demo_float (\<lambda>u h c. u) (demo_detector ''70'' 0.7) ''http://casino.example'' None None
     = Inr (0.7, False)
   \<and> predict_gambling demo_float (\<lambda>u h c. u) (demo_detector ''30'' 0.7) ''http://casino.example'' None None
     = Inr (0.7, True)"
proof -
  let ?clf = "\<lambda>features::string. (Inr [[1 - 0.7, 0.7]] :: exn + real list list)"
  let ?ex = "\<lambda>(u::string) (h::headers option) (c::string option). u"
  have m: "model (demo_detector s 0.7) = Some ?clf" for s
    by (simp add: demo_detector_def)
  have c: "?clf (?ex ''http://casino.example'' None None) = Inr ([1 - 0.7, 0.7] # [])"
    by simp
  have s: "Some s = (case db_manager (demo_detector s 0.7) of None \<Rightarrow> None
                     | Some dbm \<Rightarrow> get_setting dbm ''sensitivity'')" for s
    by (simp add: demo_detector_def get_setting_def)
  have g: "gambling_prob_of [1 - 0.7, 0.7] = 0.7"
    by (simp add: gambling_prob_of_def)
  have f70: "demo_float ''70'' = Inr 70" and f30: "demo_float ''30'' = Inr 30"
    by (simp_all add: demo_float_def)
  from predict_gambling_flags_above_threshold [OF m c s, of "''70''" demo_float] f70 g
  have a: "predict_gambling demo_float ?ex (demo_detector ''70'' 0.7) ''http://casino.example'' None None
             = Inr (0.7, False)"
    by simp
  from predict_gambling_flags_above_threshold [OF m c s, of "''30''" demo_float] f30 g
  have b: "predict_gambling demo_float ?ex (demo_detector ''30'' 0.7) ''http://casino.example'' None None
             = Inr (0.7, True)"
    by simp
  from a b show ?thesis by simp
qed

text \<open>
  C2. If no model is loaded, or the pipeline raises or returns an empty array, or reading
  the sensitivity raises,
  \<open>predict_gambling\<close> returns probability 0.5 and the verdict false; it returns a pair on
  every input, so no exception reaches its caller. In \<open>analyze_connection\<close>, a missing
  or raising classifier gives a logged detection with confidence 0.5 and verdict false, and
  nothing is blocked.
\<close>

theorem classifier_failure_neutral_verdict:
  "(model d = None
      \<or> (\<exists>clf e. model d = Some clf \<and> clf (extract url hdrs content) = Inl e)
      \<or> (\<exists>clf. model d = Some clf \<and> clf (extract url hdrs content) = Inr [])
      \<or> (\<exists>e. read_sensitivity pyfloat d = Inl e)
     \<longrightarrow> predict_gambling pyfloat extract d url hdrs content = Inr (0.5, False))
   \<and> (\<exists>r. predict_gambling pyfloat extract d url hdrs content = Inr r)
   \<and> ((ml_predictor m = None
        \<or> (\<exists>p e. ml_predictor m = Some p
               \<and> p (''http://'' @ resolve_hostname env (raddr_ip conn)) None None = Inl e))
       \<and> \<not> startswith (raddr_ip conn) ''127.'' \<and> \<not> startswith (raddr_ip conn) ''192.168.''
       \<and> \<not> analyzed_recently env m
              (cache_key_of (resolve_hostname env (raddr_ip conn)) (raddr_port conn))
     \<longrightarrow> detection_logs (db (analyze_connection env conn m))
           = detection_logs (db m)
             @ [\<lparr>det_url = ''http://'' @ resolve_hostname env (raddr_ip conn),
                 det_confidence = 0.5, det_is_gambling = False, det_headers = None,
                 det_content_snippet = None,
                 det_blocked = (resolve_hostname env (raddr_ip conn) \<in> blocked_domains m),
                 det_method = Some ''CONNECTION'', det_status_code = None,
                 det_response_size = None\<rparr>]
         \<and> blocked_domains (analyze_connection env conn m) = blocked_domains m)"
proof (intro conjI impI)
  assume "model d = None
      \<or> (\<exists>clf e. model d = Some clf \<and> clf (extract url hdrs content) = Inl e)
      \<or> (\<exists>clf. model d = Some clf \<and> clf (extract url hdrs content) = Inr [])
      \<or> (\<exists>e. read_sensitivity pyfloat d = Inl e)"
  then show "predict_gambling pyfloat extract d url hdrs content = Inr (0.5, False)"
    by (auto simp: predict_gambling_def try_except_def then_do_def first_row_def
          split: option.splits sum.splits)
next
  show "\<exists>r. predict_gambling pyfloat extract d url hdrs content = Inr r"
    by (rule predict_gambling_returns)
next
  assume a: "(ml_predictor m = None
        \<or> (\<exists>p e. ml_predictor m = Some p
               \<and> p (''http://'' @ resolve_hostname env (raddr_ip conn)) None None = Inl e))
       \<and> \<not> startswith (raddr_ip conn) ''127.'' \<and> \<not> startswith (raddr_ip conn) ''192.168.''
       \<and> \<not> analyzed_recently env m
              (cache_key_of (resolve_hostname env (raddr_ip conn)) (raddr_port conn))"
  then have c: "call_predictor (ml_predictor m) (''http://'' @ resolve_hostname env (raddr_ip conn))
                  = (0.5, False)"
    by (auto simp: call_predictor_def)
  from a have b: "\<not> startswith (raddr_ip conn) ''127.''" "\<not> startswith (raddr_ip conn) ''192.168.''"
     "\<not> analyzed_recently env m
              (cache_key_of (resolve_hostname env (raddr_ip conn)) (raddr_port conn))"
    by simp_all
  note p = analyze_connection_processed [OF b refl c refl]
  show "detection_logs (db (analyze_connection env conn m))
           = detection_logs (db m)
             @ [\<lparr>det_url = ''http://'' @ resolve_hostname env (raddr_ip conn),
                 det_confidence = 0.5, det_is_gambling = False, det_headers = None,
                 det_content_snippet = None,
                 det_blocked = (resolve_hostname env (raddr_ip conn) \<in> blocked_domains m),
                 det_method = Some ''CONNECTION'', det_status_code = None,
                 det_response_size = None\<rparr>]"
    by (simp add: p log_detection_def if_truthy_def snippet_def)
  show "blocked_domains (analyze_connection env conn m) = blocked_domains m"
    by (simp add: p)
qed

theorem classifier_failure_neutral_verdict_witness:
  "predict_gambling demo_float (\<lambda>u h c. u) \<lparr>model = None, db_manager = None\<rparr>
      ''http://casino.example'' None None = Inr (0.5, False)
   \<and> detection_logs (db (analyze_connection (demo_env 0) demo_conn
                            (demo_monitor (Some failing_predictor) None)))
       = [\<lparr>det_url = ''http://casino.example'', det_confidence = 0.5, det_is_gambling = False,
           det_headers = None, det_content_snippet = None, det_blocked = False,
           det_method = Some ''CONNECTION'', det_status_code = None,
           det_response_size = None\<rparr>]"
proof -
  note t = classifier_failure_neutral_verdict
             [of "\<lparr>model = None, db_manager = None\<rparr>" "\<lambda>u h c. u" "''http://casino.example''"
                 None None demo_float "demo_monitor (Some failing_predictor) None"
                 "demo_env 0" demo_conn]
  have a: "model \<lparr>model = None, db_manager = None\<rparr> = None" by simp
  have b: "failing_predictor (''http://'' @ resolve_hostname (demo_env 0) (raddr_ip demo_conn))
             None None = Inl OtherError"
    by (simp add: failing_predictor_def)
  from t a have 1: "predict_gambling demo_float (\<lambda>u h c. u) \<lparr>model = None, db_manager = None\<rparr>
      ''http://casino.example'' None None = Inr (0.5, False)"
    by blast
  from t b demo_conn_not_local demo_fresh
  have 2: "detection_logs (db (analyze_connection (demo_env 0) demo_conn
                            (demo_monitor (Some failing_predictor) None)))
        = detection_logs (db (demo_monitor (Some failing_predictor) None))
             @ [\<lparr>det_url = ''http://'' @ resolve_hostname (demo_env 0) (raddr_ip demo_conn),
                 det_confidence = 0.5, det_is_gambling = False, det_headers = None,
                 det_content_snippet = None,
                 det_blocked = (resolve_hostname (demo_env 0) (raddr_ip demo_conn)
                                  \<in> blocked_domains (demo_monitor (Some failing_predictor) None)),
                 det_method = Some ''CONNECTION'', det_status_code = None,
                 det_response_size = None\<rparr>]"
    by (simp add: demo_monitor_simps)
  from 1 2 show ?thesis
    by (simp add: demo_monitor_simps demo_resolve demo_db_def)
qed

text \<open>
  C3 fails on the code, on the proxy path. A proxied response classified as gambling with
  confidence 0.9, on a domain that is not blocked, puts the domain into the addon's
  in-memory set, but the store holds no blocked-site entry afterwards (and the addon has no
  access to the hosts file), whereas \<open>block_domain\<close>, which the connection path calls,
  writes the entry.
\<close>

theorem proxy_auto_block_skips_block_domain:
  "demo_predictor 0.9 True ''http://casino.example/play'' (Some []) (Some ''spin and win'')
     = Inr (0.9, True)
   \<and> (0.8 :: real) < 0.9
   \<and> ''casino.example'' \<notin> addon_blocked_domains (demo_addon 0.9)
   \<and> addon_blocked_domains (response demo_netloc 1 (demo_addon 0.9) (demo_served_flow 0.9))
       = {''casino.example''}
   \<and> blocked_sites (addon_db (response demo_netloc 1 (demo_addon 0.9) (demo_served_flow 0.9))) = []
   \<and> blocked_sites (db (snd (block_domain ''casino.example'' (demo_monitor None None))))
       = [(''http://casino.example'', ''Gambling detected'')]"
proof -
  have p: "demo_predictor 0.9 True
             (info_url \<lparr>info_url = ''http://casino.example/play'', info_method = ''GET'',
                        info_headers = [], info_body = None\<rparr>)
             (Some (resp_headers demo_page)) (text_or_none (resp_content demo_page))
           = Inr (0.9, True)"
    by (rule demo_predictor_result)
  note v = response_verdict [OF demo_served_flow_simps demo_addon_simps(2) p, of demo_netloc 1]
  have b: "blocked_sites (db (snd (block_domain ''casino.example'' (demo_monitor None None))))
       = [(''http://casino.example'', ''Gambling detected'')]"
    by (simp add: block_domain_def Let_def add_blocked_site_def demo_monitor_simps demo_db_def)
  show ?thesis
    by (simp add: v demo_addon_simps demo_netloc_play demo_db_def b demo_predictor_result)
qed

text \<open>
  What does hold of the auto-block policy. For a connection that is analysed: a flagged
  verdict with confidence strictly above 0.7 on a hostname outside the blocked set runs
  \<open>block_domain\<close> on the hostname (store entry, in-memory insert, hosts file), and a
  verdict that is not flagged or has confidence at most 0.7 changes neither the blocked
  set, nor the stored blocked sites, nor the hosts file. For a proxied response that is
  classified: a flagged verdict with confidence strictly above 0.8 inserts the domain into
  the addon's in-memory blocked set, and otherwise that set is unchanged.
\<close>

theorem auto_block_policy:
  assumes "hostname = resolve_hostname env (raddr_ip conn)"
      and "\<not> startswith (raddr_ip conn) ''127.''"
      and "\<not> startswith (raddr_ip conn) ''192.168.''"
      and "\<not> analyzed_recently env m (cache_key_of hostname (raddr_port conn))"
      and "call_predictor (ml_predictor m) (''http://'' @ hostname) = (confidence, is_gambling)"
      and "logged = m\<lparr>connections_cache :=
                        (connections_cache m)(cache_key_of hostname (raddr_port conn) \<mapsto> now_record env),
                      db := log_detection (''http://'' @ hostname) confidence is_gambling None None
                              (hostname \<in> blocked_domains m) (Some ''CONNECTION'') None None (db m)\<rparr>"
      and "flow_request_info f = Some info"
      and "flow_request_start_time f = Some start"
      and "flow_response f = Some resp"
      and "addon_ml_predictor a = Some p"
      and "p (info_url info) (Some (resp_headers resp)) (text_or_none (resp_content resp))
             = Inr (proxy_confidence, proxy_is_gambling)"
  shows "(is_gambling \<and> confidence > 0.7 \<and> hostname \<notin> blocked_domains m \<longrightarrow>
            analyze_connection env conn m
              = (snd (block_domain hostname logged))
                  \<lparr>stdout := stdout (snd (block_domain hostname logged))
                                @ [Blocked_gambling_site hostname confidence]\<rparr>
            \<and> hostname \<in> blocked_domains (analyze_connection env conn m)
            \<and> ''http://'' @ hostname
                 \<in> fst ` set (blocked_sites (db (analyze_connection env conn m))))
       \<and> (\<not> (is_gambling \<and> confidence > 0.7) \<longrightarrow>
            blocked_domains (analyze_connection env conn m) = blocked_domains m
            \<and> blocked_sites (db (analyze_connection env conn m)) = blocked_sites (db m)
            \<and> hosts_file (analyze_connection env conn m) = hosts_file m)
       \<and> (proxy_is_gambling \<and> proxy_confidence > 0.8 \<longrightarrow>
            addon_blocked_domains (response netloc now a f)
              = insert (netloc (info_url info)) (addon_blocked_domains a))
       \<and> (\<not> (proxy_is_gambling \<and> proxy_confidence > 0.8) \<longrightarrow>
            addon_blocked_domains (response netloc now a f) = addon_blocked_domains a)"
proof -
  note c = analyze_connection_processed
             [OF assms(2) assms(3) assms(4) [unfolded assms(1)] assms(1)
                 assms(5) assms(6)]
  note v = response_verdict(1) [OF assms(7-11), of netloc now]
  have 1: "is_gambling \<and> confidence > 0.7 \<and> hostname \<notin> blocked_domains m \<longrightarrow>
            analyze_connection env conn m
              = (snd (block_domain hostname logged))
                  \<lparr>stdout := stdout (snd (block_domain hostname logged))
                                @ [Blocked_gambling_site hostname confidence]\<rparr>
            \<and> hostname \<in> blocked_domains (analyze_connection env conn m)
            \<and> ''http://'' @ hostname
                 \<in> fst ` set (blocked_sites (db (analyze_connection env conn m)))"
    using block_domain_blocked_sites [of hostname logged]
    by (simp add: c block_domain_blocked_domains)
  have 2: "\<not> (is_gambling \<and> confidence > 0.7) \<longrightarrow>
            blocked_domains (analyze_connection env conn m) = blocked_domains m
            \<and> blocked_sites (db (analyze_connection env conn m)) = blocked_sites (db m)
            \<and> hosts_file (analyze_connection env conn m) = hosts_file m"
    by (auto simp: c assms(6) log_detection_def)
  have 3: "proxy_is_gambling \<and> proxy_confidence > 0.8 \<longrightarrow>
            addon_blocked_domains (response netloc now a f)
              = insert (netloc (info_url info)) (addon_blocked_domains a)"
    using v by simp
  have 4: "\<not> (proxy_is_gambling \<and> proxy_confidence > 0.8) \<longrightarrow>
            addon_blocked_domains (response netloc now a f) = addon_blocked_domains a"
    using v by simp
  show ?thesis
    by (rule conjI [OF 1 conjI [OF 2 conjI [OF 3 4]]])
qed

theorem auto_block_policy_witness:
  "hosts_file (analyze_connection (demo_env 0) demo_conn
                 (demo_monitor (Some (demo_predictor 0.75 True)) None))
     = newline # ''127.0.0.1 casino.example'' @ newline # ''127.0.0.1 www.casino.example''
   \<and> blocked_domains (analyze_connection (demo_env 0) demo_conn
                 (demo_monitor (Some (demo_predictor 0.75 True)) None)) = {''casino.example''}
   \<and> blocked_sites (db (analyze_connection (demo_env 0) demo_conn
                 (demo_monitor (Some (demo_predictor 0.75 True)) None)))
       = [(''http://casino.example'', ''Gambling detected'')]
   \<and> addon_blocked_domains (response demo_netloc 1 (demo_addon 0.75) (demo_served_flow 0.75)) = {}
   \<and> addon_blocked_domains (response demo_netloc 1 (demo_addon 0.9) (demo_served_flow 0.9))
       = {''casino.example''}"
proof -
  let ?m = "demo_monitor (Some (demo_predictor 0.75 True)) None"
  let ?info = "\<lparr>info_url = ''http://casino.example/play'', info_method = ''GET'',
                 info_headers = [], info_body = None\<rparr>"
  have h: "''casino.example'' = resolve_hostname (demo_env 0) (raddr_ip demo_conn)"
    by (simp add: demo_resolve)
  have cp: "call_predictor (ml_predictor ?m) (''http://'' @ ''casino.example'') = (0.75, True)"
    by (simp add: call_predictor_def demo_monitor_simps demo_predictor_result)
  have p: "demo_predictor q True (info_url ?info)
             (Some (resp_headers demo_page)) (text_or_none (resp_content demo_page))
           = Inr (q, True)" for q
    by (rule demo_predictor_result)
  note t1 = auto_block_policy [OF h demo_conn_not_local demo_fresh cp refl
              demo_served_flow_simps [of "0.75"] demo_addon_simps(2) p, where netloc = demo_netloc and now = 1]
  note t2 = auto_block_policy [OF h demo_conn_not_local demo_fresh cp refl
              demo_served_flow_simps [of "0.9"] demo_addon_simps(2) p, where netloc = demo_netloc and now = 1]
  have a: "analyze_connection (demo_env 0) demo_conn ?m
              = (snd (block_domain ''casino.example''
                   (?m\<lparr>connections_cache :=
                        (connections_cache ?m)(cache_key_of ''casino.example'' (raddr_port demo_conn)
                           \<mapsto> now_record (demo_env 0)),
                      db := log_detection (''http://'' @ ''casino.example'') 0.75 True None None
                              (''casino.example'' \<in> blocked_domains ?m) (Some ''CONNECTION'')
                              None None (db ?m)\<rparr>)))
                  \<lparr>stdout := stdout (snd (block_domain ''casino.example''
                   (?m\<lparr>connections_cache :=
                        (connections_cache ?m)(cache_key_of ''casino.example'' (raddr_port demo_conn)
                           \<mapsto> now_record (demo_env 0)),
                      db := log_detection (''http://'' @ ''casino.example'') 0.75 True None None
                              (''casino.example'' \<in> blocked_domains ?m) (Some ''CONNECTION'')
                              None None (db ?m)\<rparr>)))
                                @ [Blocked_gambling_site ''casino.example'' 0.75]\<rparr>"
    using t1 by (simp add: demo_monitor_simps)
  have b: "addon_blocked_domains (response demo_netloc 1 (demo_addon 0.75) (demo_served_flow 0.75)) = {}"
    using t1 by (simp add: demo_addon_simps)
  have c: "addon_blocked_domains (response demo_netloc 1 (demo_addon 0.9) (demo_served_flow 0.9))
       = {''casino.example''}"
    using t2 by (simp add: demo_addon_simps demo_netloc_play)
  show ?thesis
    unfolding a using b c
    by (simp add: block_domain_def Let_def add_blocked_site_def log_detection_def
          demo_monitor_simps demo_db_def)
qed

text \<open>
  C4. When the domain of an intercepted request is in the addon's blocked set, the request
  hook answers the flow (which, entering the hook, carries no request context) with the
  fixed blocked page and attaches no request context; the response hook then leaves the
  addon, and with it the traffic log, unchanged.
\<close>

theorem blocked_request_short_circuits:
  assumes "netloc (flow_pretty_url f) \<in> addon_blocked_domains a"
      and "flow_request_info f = None"
  shows "request netloc now a f = f\<lparr>flow_response := Some blocked_page\<rparr>
       \<and> resp_content blocked_page
           = ''<html><body><h1>Site Blocked</h1><p>This site has been blocked by NetGuard.</p></body></html>''
       \<and> flow_request_info (request netloc now a f) = None
       \<and> response netloc later a (request netloc now a f) = a
       \<and> traffic_logs (addon_db (response netloc later a (request netloc now a f)))
           = traffic_logs (addon_db a)"
  using assms by (simp add: request_def response_def Let_def blocked_page_def)

theorem blocked_request_short_circuits_witness:
  "flow_response (request demo_netloc 0 demo_blocking_addon demo_flow) = Some blocked_page
   \<and> response demo_netloc 1 demo_blocking_addon (request demo_netloc 0 demo_blocking_addon demo_flow)
       = demo_blocking_addon
   \<and> traffic_logs (addon_db (response demo_netloc 1 demo_blocking_addon
                                (request demo_netloc 0 demo_blocking_addon demo_flow))) = []"
proof -
  have a: "demo_netloc (flow_pretty_url demo_flow) \<in> addon_blocked_domains demo_blocking_addon"
    by (simp add: demo_flow_def demo_netloc_play demo_blocking_addon_simps)
  have b: "flow_request_info demo_flow = None"
    by (simp add: demo_flow_def)
  note t = blocked_request_short_circuits
             [where netloc = demo_netloc and f = demo_flow and a = demo_blocking_addon
                and now = 0 and later = 1, OF a b]
  from t have 1: "flow_response (request demo_netloc 0 demo_blocking_addon demo_flow)
                    = Some blocked_page"
    by simp
  have 2: "response demo_netloc 1 demo_blocking_addon
             (request demo_netloc 0 demo_blocking_addon demo_flow) = demo_blocking_addon"
    by (rule t [THEN conjunct2, THEN conjunct2, THEN conjunct2, THEN conjunct1])
  have 3: "traffic_logs (addon_db (response demo_netloc 1 demo_blocking_addon
                                (request demo_netloc 0 demo_blocking_addon demo_flow))) = []"
    unfolding 2 by (simp add: demo_blocking_addon_simps demo_db_def)
  from 1 2 3 show ?thesis by (intro conjI)
qed

text \<open>
  C5. After \<open>block_domain d\<close> the domain is a member of the in-memory blocked set, and
  after a following \<open>unblock_domain d\<close> it is not, whatever the hosts file allows.
\<close>

theorem block_unblock_round_trip:
  "d \<in> blocked_domains (snd (block_domain d m))
   \<and> d \<notin> blocked_domains (snd (unblock_domain d (snd (block_domain d m))))"
  by (simp add: block_domain_blocked_domains unblock_domain_blocked_domains)

theorem block_unblock_round_trip_witness:
  "''casino.example'' \<in> blocked_domains (snd (block_domain ''casino.example'' demo_denied_monitor))
   \<and> ''casino.example'' \<notin> blocked_domains
        (snd (unblock_domain ''casino.example''
               (snd (block_domain ''casino.example'' demo_denied_monitor))))"
  by (rule block_unblock_round_trip)

text \<open>
  C6 as stated fails: with the hosts file write-protected, \<open>block_domain\<close> returns the
  same value \<open>True\<close> as when the override was written, so its caller cannot tell the two
  apart.
\<close>

theorem permission_error_returns_plain_success_counterexample:
  "fst (block_domain ''casino.example'' demo_denied_monitor)
     = fst (block_domain ''casino.example'' (demo_monitor None None))
   \<and> fst (block_domain ''casino.example'' demo_denied_monitor) = True
   \<and> hosts_file (snd (block_domain ''casino.example'' demo_denied_monitor)) = []
   \<and> hosts_file (snd (block_domain ''casino.example'' (demo_monitor None None)))
       = newline # ''127.0.0.1 casino.example'' @ newline # ''127.0.0.1 www.casino.example''"
  by (simp add: block_domain_def Let_def demo_denied_monitor_def demo_monitor_simps)

text \<open>
  C6, as amended. If opening the hosts file for writing raises \<open>PermissionError\<close>,
  \<open>block_domain\<close> still inserts the domain into the in-memory set and the store, leaves the
  hosts file as it was, prints the permission message to the console and returns
  \<open>True\<close>, the value it returns when the override is written.
\<close>

theorem block_domain_permission_denied:
  assumes "hosts_write_error m = Some PermissionError"
  shows "fst (block_domain d m) = True
       \<and> d \<in> blocked_domains (snd (block_domain d m))
       \<and> ''http://'' @ d \<in> fst ` set (blocked_sites (db (snd (block_domain d m))))
       \<and> hosts_file (snd (block_domain d m)) = hosts_file m
       \<and> stdout (snd (block_domain d m)) = stdout m @ [Permission_denied_hosts d]
       \<and> fst (block_domain d (m\<lparr>hosts_write_error := None\<rparr>)) = fst (block_domain d m)"
proof -
  have "fst (block_domain d m) = True"
    "hosts_file (snd (block_domain d m)) = hosts_file m"
    "stdout (snd (block_domain d m)) = stdout m @ [Permission_denied_hosts d]"
    "fst (block_domain d (m\<lparr>hosts_write_error := None\<rparr>)) = fst (block_domain d m)"
    using assms by (simp_all add: block_domain_def Let_def)
  then show ?thesis
    using block_domain_blocked_sites [of d m]
    by (simp add: block_domain_blocked_domains)
qed

theorem block_domain_permission_denied_witness:
  "fst (block_domain ''casino.example'' demo_denied_monitor) = True
   \<and> blocked_domains (snd (block_domain ''casino.example'' demo_denied_monitor))
       = {''casino.example''}
   \<and> blocked_sites (db (snd (block_domain ''casino.example'' demo_denied_monitor)))
       = [(''http://casino.example'', ''Gambling detected'')]
   \<and> hosts_file (snd (block_domain ''casino.example'' demo_denied_monitor)) = []
   \<and> stdout (snd (block_domain ''casino.example'' demo_denied_monitor))
       = [Permission_denied_hosts ''casino.example'']"
proof -
  have a: "hosts_write_error demo_denied_monitor = Some PermissionError"
    by (simp add: demo_denied_monitor_def demo_monitor_simps)
  from block_domain_permission_denied [OF a, of "''casino.example''"] show ?thesis
    by (simp add: block_domain_blocked_domains block_domain_blocked_sites_eq
          demo_denied_monitor_def demo_monitor_simps demo_db_def)
qed

text \<open>
  C7 fails on the code. A pair first analysed at time 0 and seen again one day and ten
  seconds later (86410 seconds) is suppressed: the monitor is unchanged and no detection
  is logged, because the comparison reads the seconds component of the time difference
  (here 10). Seen again after 301 seconds it is analysed a second time.
\<close>

theorem dedup_suppresses_after_one_day:
  "timedelta_total_seconds (86410000000 - 0) = 86410
   \<and> analyze_connection (demo_env 86410000000) demo_conn demo_first_seen = demo_first_seen
   \<and> length (detection_logs (db (analyze_connection (demo_env 86410000000) demo_conn
                                    demo_first_seen))) = 1
   \<and> length (detection_logs (db (analyze_connection (demo_env 301000000) demo_conn
                                    demo_first_seen))) = 2"
proof -
  have c: "connections_cache demo_first_seen (cache_key_of ''casino.example'' 443) = Some 0"
    by (simp add: demo_first_seen_eq)
  have r: "analyzed_recently (demo_env 86410000000) demo_first_seen
             (cache_key_of (resolve_hostname (demo_env 86410000000) (raddr_ip demo_conn))
                (raddr_port demo_conn))"
    by (simp add: analyzed_recently_def demo_resolve c demo_conn_def demo_env_simps
          timedelta_seconds_def)
  have 1: "analyze_connection (demo_env 86410000000) demo_conn demo_first_seen = demo_first_seen"
    using r demo_conn_not_local by (simp add: analyze_connection_def Let_def)
  have n: "\<not> analyzed_recently (demo_env 301000000) demo_first_seen
             (cache_key_of (resolve_hostname (demo_env 301000000) (raddr_ip demo_conn))
                (raddr_port demo_conn))"
    by (simp add: analyzed_recently_def demo_resolve c demo_conn_def demo_env_simps
          timedelta_seconds_def)
  obtain confidence is_gambling where
    cp: "call_predictor (ml_predictor demo_first_seen)
           (''http://'' @ resolve_hostname (demo_env 301000000) (raddr_ip demo_conn))
           = (confidence, is_gambling)"
    by (cases "call_predictor (ml_predictor demo_first_seen)
           (''http://'' @ resolve_hostname (demo_env 301000000) (raddr_ip demo_conn))")
  have 2: "length (detection_logs (db (analyze_connection (demo_env 301000000) demo_conn
                                    demo_first_seen))) = 2"
    unfolding analyze_connection_detection_logs [OF demo_conn_not_local n refl cp]
    by (simp add: demo_first_seen_eq)
  have 3: "length (detection_logs (db demo_first_seen)) = 1"
    by (simp add: demo_first_seen_eq)
  have 4: "timedelta_total_seconds (86410000000 - 0) = 86410"
    by (simp add: timedelta_total_seconds_def)
  from 1 2 3 4 show ?thesis by simp
qed

text \<open>
  C8. An invocation of \<open>get_real_time_stats\<close> adds a bandwidth row only if no row was
  logged before or more than 300 seconds have passed since the last logged row; the
  first invocation logs a row at once; and a caller that invokes it once per second, 600
  or 601 times (any number from 302 to 602), on a fresh monitor gets exactly two rows.
\<close>

theorem bandwidth_log_throttle:
  "(bandwidth_history (db (get_real_time_stats env m)) \<noteq> bandwidth_history (db m) \<longrightarrow>
      last_bandwidth_log m = None
      \<or> (\<exists>last_log. last_bandwidth_log m = Some last_log \<and> current_time env - last_log > 300))
   \<and> (last_bandwidth_log m = None \<and> psutil_read env = Inr s \<longrightarrow>
        length (bandwidth_history (db (get_real_time_stats env m)))
          = Suc (length (bandwidth_history (db m)))
        \<and> last_bandwidth_log (get_real_time_stats env m) = Some (current_time env))
   \<and> (last_bandwidth_log m = None \<and> 302 \<le> n \<and> n \<le> 602 \<longrightarrow>
        length (bandwidth_history (db (poll_stats (every_second t0 io 0 n) m)))
          = length (bandwidth_history (db m)) + 2)"
proof (intro conjI impI)
  assume "bandwidth_history (db (get_real_time_stats env m)) \<noteq> bandwidth_history (db m)"
  from get_real_time_stats_only_if_due [OF this]
  show "last_bandwidth_log m = None
      \<or> (\<exists>last_log. last_bandwidth_log m = Some last_log \<and> current_time env - last_log > 300)"
    by (cases "last_bandwidth_log m") (simp_all add: bandwidth_log_due_def)
next
  assume a: "last_bandwidth_log m = None \<and> psutil_read env = Inr s"
  then have d: "bandwidth_log_due m (current_time env)"
    by (simp add: bandwidth_log_due_def)
  from a have p: "psutil_read env = Inr s" by simp
  note g = get_real_time_stats_due [OF p d]
  show "length (bandwidth_history (db (get_real_time_stats env m)))
          = Suc (length (bandwidth_history (db m)))"
    by (simp add: g(1))
  show "last_bandwidth_log (get_real_time_stats env m) = Some (current_time env)"
    by (rule g(2))
next
  assume "last_bandwidth_log m = None \<and> 302 \<le> n \<and> n \<le> 602"
  then show "length (bandwidth_history (db (poll_stats (every_second t0 io 0 n) m)))
          = length (bandwidth_history (db m)) + 2"
    by (simp add: poll_stats_ten_minutes)
qed

theorem bandwidth_log_throttle_witness:
  "length (bandwidth_history (db (poll_stats (every_second 1000 demo_io 0 600)
                                     (demo_monitor None None)))) = 2
   \<and> length (bandwidth_history (db (poll_stats (every_second 1000 demo_io 0 601)
                                     (demo_monitor None None)))) = 2
   \<and> length (bandwidth_history (db (get_real_time_stats
        \<lparr>psutil_read = Inr (demo_io 0), current_time = 1000\<rparr> (demo_monitor None None)))) = 1"
proof -
  let ?m = "demo_monitor None None"
  have f: "last_bandwidth_log ?m = None" "bandwidth_history (db ?m) = []"
    by (simp_all add: demo_monitor_simps demo_db_def)
  from bandwidth_log_throttle [where m = ?m and n = 600 and ?t0.0 = 1000 and io = demo_io] f
  have 1: "length (bandwidth_history (db (poll_stats (every_second 1000 demo_io 0 600) ?m))) = 2"
    by simp
  from bandwidth_log_throttle [where m = ?m and n = 601 and ?t0.0 = 1000 and io = demo_io] f
  have 2: "length (bandwidth_history (db (poll_stats (every_second 1000 demo_io 0 601) ?m))) = 2"
    by simp
  from bandwidth_log_throttle
         [where m = ?m and env = "\<lparr>psutil_read = Inr (demo_io 0), current_time = 1000\<rparr>"
            and s = "demo_io 0"] f
  have 3: "length (bandwidth_history (db (get_real_time_stats
        \<lparr>psutil_read = Inr (demo_io 0), current_time = 1000\<rparr> ?m))) = 1"
    by simp
  from 1 2 3 show ?thesis by (intro conjI)
qed

text \<open>
  C9 as stated fails: a domain blocked as \<open>Casino.Example\<close> is stored with its capitals
  and \<open>casino.example\<close> is not a member; with \<open>casino.example\<close> blocked, neither
  \<open>www.casino.example\<close> nor \<open>Casino.Example\<close> is matched by the request hook.
\<close>

theorem blocked_set_not_normalised_counterexample:
  "blocked_domains (snd (block_domain ''Casino.Example'' (demo_monitor None None)))
     = {''Casino.Example''}
   \<and> ''casino.example'' \<notin> blocked_domains
        (snd (block_domain ''Casino.Example'' (demo_monitor None None)))
   \<and> ''www.casino.example'' \<notin> blocked_domains
        (snd (block_domain ''casino.example'' (demo_monitor None None)))
   \<and> flow_response (request demo_netloc 0 demo_blocking_addon demo_flow) = Some blocked_page
   \<and> flow_response (request demo_netloc 0 demo_blocking_addon demo_www_flow) = None
   \<and> flow_response (request demo_netloc 0 demo_blocking_addon demo_upper_flow) = None"
  by (simp add: block_domain_blocked_domains demo_monitor_simps request_def Let_def
        demo_blocking_addon_simps demo_flow_def demo_www_flow_def demo_upper_flow_def
        demo_netloc_def)

text \<open>
  C9, as amended. The blocked set holds domain strings exactly as they were given:
  \<open>block_domain\<close> adds the given string and nothing else, \<open>unblock_domain\<close> removes
  that string and nothing else, \<open>load_blocked_sites\<close> stores the network location of
  each stored URL unchanged, and the request hook matches by string equality. The set is a
  set, and the stored blocked sites keep their URLs distinct.
\<close>

theorem blocked_set_is_verbatim:
  "(e \<in> blocked_domains (snd (block_domain d m))) = (e = d \<or> e \<in> blocked_domains m)
   \<and> (e \<in> blocked_domains (snd (unblock_domain d m))) = (e \<noteq> d \<and> e \<in> blocked_domains m)
   \<and> blocked_domains (load_blocked_sites netloc m)
       = (\<lambda>site. netloc (fst site)) ` set (blocked_sites (db m))
   \<and> (flow_response f = None \<longrightarrow>
        (flow_response (request netloc now a f) = Some blocked_page)
          = (netloc (flow_pretty_url f) \<in> addon_blocked_domains a))
   \<and> (distinct (map fst (blocked_sites (db m))) \<longrightarrow>
        distinct (map fst (blocked_sites (db (snd (block_domain d m)))))
        \<and> distinct (map fst (blocked_sites (db (snd (unblock_domain d m))))))"
proof (intro conjI impI)
  show "(e \<in> blocked_domains (snd (block_domain d m))) = (e = d \<or> e \<in> blocked_domains m)"
    by (simp add: block_domain_blocked_domains)
  show "(e \<in> blocked_domains (snd (unblock_domain d m))) = (e \<noteq> d \<and> e \<in> blocked_domains m)"
    by (auto simp: unblock_domain_blocked_domains)
  show "blocked_domains (load_blocked_sites netloc m)
       = (\<lambda>site. netloc (fst site)) ` set (blocked_sites (db m))"
    by (simp add: load_blocked_sites_def get_blocked_sites_def)
next
  assume "flow_response f = None"
  then show "(flow_response (request netloc now a f) = Some blocked_page)
          = (netloc (flow_pretty_url f) \<in> addon_blocked_domains a)"
    by (simp add: request_def Let_def)
next
  assume d: "distinct (map fst (blocked_sites (db m)))"
  then show "distinct (map fst (blocked_sites (db (snd (block_domain d m)))))"
    by (simp add: block_domain_blocked_sites_eq)
  from d show "distinct (map fst (blocked_sites (db (snd (unblock_domain d m)))))"
    by (simp add: unblock_domain_blocked_sites_eq distinct_map_filter)
qed

theorem blocked_set_is_verbatim_witness:
  "(''casino.example'' \<in> blocked_domains (snd (block_domain ''Casino.Example'' (demo_monitor None None))))
     = False
   \<and> (''Casino.Example'' \<in> blocked_domains (snd (block_domain ''Casino.Example'' (demo_monitor None None))))
     = True
   \<and> distinct (map fst (blocked_sites (db (snd (block_domain ''casino.example''
         (snd (block_domain ''casino.example'' (demo_monitor None None))))))))
   \<and> (flow_response (request demo_netloc 0 demo_blocking_addon demo_www_flow) = Some blocked_page)
     = False"
proof -
  let ?m = "demo_monitor None None"
  note t1 = blocked_set_is_verbatim [where d = "''Casino.Example''" and m = ?m]
  have 1: "(''casino.example'' \<in> blocked_domains (snd (block_domain ''Casino.Example'' ?m))) = False"
    using t1 [where e = "''casino.example''"] by (simp add: demo_monitor_simps)
  have 2: "(''Casino.Example'' \<in> blocked_domains (snd (block_domain ''Casino.Example'' ?m))) = True"
    using t1 [where e = "''Casino.Example''"] by simp
  have d: "distinct (map fst (blocked_sites (db (snd (block_domain ''casino.example'' ?m)))))"
    by (simp add: block_domain_blocked_sites_eq demo_monitor_simps demo_db_def)
  have 3: "distinct (map fst (blocked_sites (db (snd (block_domain ''casino.example''
         (snd (block_domain ''casino.example'' ?m)))))))"
    using blocked_set_is_verbatim
            [where d = "''casino.example''" and m = "snd (block_domain ''casino.example'' ?m)"] d
    by blast
  have n: "flow_response demo_www_flow = None"
    by (simp add: demo_www_flow_def demo_flow_def)
  have 4: "(flow_response (request demo_netloc 0 demo_blocking_addon demo_www_flow) = Some blocked_page)
     = False"
    using blocked_set_is_verbatim
            [where f = demo_www_flow and netloc = demo_netloc and a = demo_blocking_addon
               and now = 0] n
    by (simp add: demo_blocking_addon_simps demo_www_flow_def demo_flow_def demo_netloc_def)
  from 1 2 3 4 show ?thesis by (intro conjI)
qed

text \<open>
  C10. The response hook appends at most one detection row, and that row has
  \<open>blocked = False\<close>; this holds also when the same call auto-blocks the domain
  (flagged, confidence above 0.8). A connection that is analysed appends one detection row
  whose \<open>blocked\<close> field is the membership of the hostname in the blocked set as it was
  before the call.
\<close>

theorem detection_blocked_field:
  "(detection_logs (addon_db (response netloc now a f)) = detection_logs (addon_db a)
     \<or> (\<exists>row. detection_logs (addon_db (response netloc now a f))
                 = detection_logs (addon_db a) @ [row] \<and> \<not> det_blocked row))
   \<and> (flow_request_info f = Some info \<and> flow_request_start_time f = Some start
        \<and> flow_response f = Some resp \<and> addon_ml_predictor a = Some p
        \<and> p (info_url info) (Some (resp_headers resp)) (text_or_none (resp_content resp))
             = Inr (proxy_confidence, True)
        \<and> proxy_confidence > 0.8
      \<longrightarrow> netloc (info_url info) \<in> addon_blocked_domains (response netloc now a f)
          \<and> \<not> det_blocked (last (detection_logs (addon_db (response netloc now a f))))
          \<and> length (detection_logs (addon_db (response netloc now a f)))
              = Suc (length (detection_logs (addon_db a))))
   \<and> (\<not> startswith (raddr_ip conn) ''127.'' \<and> \<not> startswith (raddr_ip conn) ''192.168.''
        \<and> \<not> analyzed_recently env m
               (cache_key_of (resolve_hostname env (raddr_ip conn)) (raddr_port conn))
      \<longrightarrow> (\<exists>row. detection_logs (db (analyze_connection env conn m))
                    = detection_logs (db m) @ [row]
                \<and> det_blocked row
                    = (resolve_hostname env (raddr_ip conn) \<in> blocked_domains m)))"
proof (intro conjI impI)
  show "detection_logs (addon_db (response netloc now a f)) = detection_logs (addon_db a)
     \<or> (\<exists>row. detection_logs (addon_db (response netloc now a f))
                 = detection_logs (addon_db a) @ [row] \<and> \<not> det_blocked row)"
    by (rule response_rows)
next
  assume h: "flow_request_info f = Some info \<and> flow_request_start_time f = Some start
        \<and> flow_response f = Some resp \<and> addon_ml_predictor a = Some p
        \<and> p (info_url info) (Some (resp_headers resp)) (text_or_none (resp_content resp))
             = Inr (proxy_confidence, True)
        \<and> proxy_confidence > 0.8"
  then have c: "flow_request_info f = Some info" "flow_request_start_time f = Some start"
    "flow_response f = Some resp" "addon_ml_predictor a = Some p"
    "p (info_url info) (Some (resp_headers resp)) (text_or_none (resp_content resp))
             = Inr (proxy_confidence, True)"
    and g: "proxy_confidence > 0.8"
    by simp_all
  note v = response_verdict [OF c, of netloc now]
  from g show "netloc (info_url info) \<in> addon_blocked_domains (response netloc now a f)"
    by (simp add: v(1))
  show "\<not> det_blocked (last (detection_logs (addon_db (response netloc now a f))))"
    by (simp add: v(3))
  show "length (detection_logs (addon_db (response netloc now a f)))
              = Suc (length (detection_logs (addon_db a)))"
    by (simp add: v(3))
next
  assume h: "\<not> startswith (raddr_ip conn) ''127.'' \<and> \<not> startswith (raddr_ip conn) ''192.168.''
        \<and> \<not> analyzed_recently env m
               (cache_key_of (resolve_hostname env (raddr_ip conn)) (raddr_port conn))"
  obtain confidence is_gambling where
    cp: "call_predictor (ml_predictor m) (''http://'' @ resolve_hostname env (raddr_ip conn))
           = (confidence, is_gambling)"
    by (cases "call_predictor (ml_predictor m) (''http://'' @ resolve_hostname env (raddr_ip conn))")
  from h have b: "\<not> startswith (raddr_ip conn) ''127.''" "\<not> startswith (raddr_ip conn) ''192.168.''"
     "\<not> analyzed_recently env m
              (cache_key_of (resolve_hostname env (raddr_ip conn)) (raddr_port conn))"
    by simp_all
  show "\<exists>row. detection_logs (db (analyze_connection env conn m))
                    = detection_logs (db m) @ [row]
                \<and> det_blocked row
                    = (resolve_hostname env (raddr_ip conn) \<in> blocked_domains m)"
    by (simp add: analyze_connection_detection_logs [OF b refl cp])
qed

theorem detection_blocked_field_witness:
  "map det_blocked (detection_logs (addon_db
       (response demo_netloc 1 (demo_addon 0.9) (demo_served_flow 0.9)))) = [False]
   \<and> ''casino.example'' \<in> addon_blocked_domains
       (response demo_netloc 1 (demo_addon 0.9) (demo_served_flow 0.9))
   \<and> map det_blocked (detection_logs (db (analyze_connection (demo_env 0) demo_conn
                 (demo_monitor (Some (demo_predictor 0.75 True)) None)))) = [False]
   \<and> ''casino.example'' \<in> blocked_domains (analyze_connection (demo_env 0) demo_conn
                 (demo_monitor (Some (demo_predictor 0.75 True)) None))"
proof -
  let ?m = "demo_monitor (Some (demo_predictor 0.75 True)) None"
  let ?a = "demo_addon 0.9"
  let ?f = "demo_served_flow 0.9"
  let ?info = "\<lparr>info_url = ''http://casino.example/play'', info_method = ''GET'',
                 info_headers = [], info_body = None\<rparr>"
  have p: "demo_predictor 0.9 True (info_url ?info)
             (Some (resp_headers demo_page)) (text_or_none (resp_content demo_page))
           = Inr (0.9, True)"
    by (rule demo_predictor_result)
  note t = detection_blocked_field
             [where netloc = demo_netloc and now = 1 and a = ?a and f = ?f and info = ?info
                and start = 0 and resp = demo_page and p = "demo_predictor 0.9 True"
                and proxy_confidence = "0.9" and conn = demo_conn and env = "demo_env 0"
                and m = ?m]
  from t p have 1: "demo_netloc (info_url ?info)
                      \<in> addon_blocked_domains (response demo_netloc 1 ?a ?f)"
    by (simp add: demo_served_flow_simps demo_addon_simps)
  from t p have 2: "\<not> det_blocked (last (detection_logs (addon_db (response demo_netloc 1 ?a ?f))))"
    and 3: "length (detection_logs (addon_db (response demo_netloc 1 ?a ?f))) = Suc 0"
    by (simp_all add: demo_served_flow_simps demo_addon_simps demo_db_def)
  from 3 obtain r where r: "detection_logs (addon_db (response demo_netloc 1 ?a ?f)) = [r]"
    by (cases "detection_logs (addon_db (response demo_netloc 1 ?a ?f))") simp_all
  from t demo_conn_not_local demo_fresh [of "demo_env 0" "Some (demo_predictor 0.75 True)" None]
  obtain row where 4: "detection_logs (db (analyze_connection (demo_env 0) demo_conn ?m)) = [row]"
    and 5: "\<not> det_blocked row"
    by (auto simp: demo_monitor_simps demo_db_def)
  have 6: "''casino.example'' \<in> blocked_domains (analyze_connection (demo_env 0) demo_conn ?m)"
    unfolding demo_connection_blocked_domains by simp
  from 1 2 r 4 5 6 show ?thesis
    by (simp add: demo_netloc_play)
qed

end
